theory Spec2Isabelle
  imports Main "HOL-Library.Log_Nat"
begin

section \<open>Python values\<close>

text \<open>
  The crawler is Python. Strings are modelled as \<open>string\<close> (ASCII only: the
  whitespace and digit classes below are the ASCII part of Python's), integers as
  \<open>int\<close>, \<open>Optional[T]\<close> as \<open>T option\<close>, and a raised exception as the
  \<open>Inl\<close> of a sum.
\<close>

datatype py_error = ZeroDivisionError | TypeError

subsection \<open>Floats\<close>

text \<open>
  A Python float is an IEEE-754 binary64 value. A finite value is modelled by the
  rational it denotes; the sign of zero is not modelled (\<open>-0.0 == 0.0\<close> in Python).
  \<open>binary64\<close> rounds a rational to the nearest representable value, ties to even:
  53 significant bits, least exponent \<open>-1022\<close> (below it the spacing stays
  \<open>2^-1074\<close>), and a result of magnitude \<open>2^1024\<close> or more is infinite.
\<close>

datatype pyfloat = Fin rat | PInf | NInf | NaN

definition pow2 :: "int \<Rightarrow> rat" where
  "pow2 e = (if 0 \<le> e then 2 ^ nat e else 1 / 2 ^ nat (- e))"

definition floor_log2 :: "rat \<Rightarrow> int" where
  "floor_log2 a =
     (if 1 \<le> a then bitlen \<lfloor>a\<rfloor> - 1
      else (let b = 1 / a; l = bitlen \<lfloor>b\<rfloor> - 1
            in if b = pow2 l then - l else - (l + 1)))"

definition round_half_even :: "rat \<Rightarrow> int" where
  "round_half_even q =
     (let f = \<lfloor>q\<rfloor>; r = q - of_int f
      in if r < 1 / 2 then f else if 1 / 2 < r then f + 1
         else if even f then f else f + 1)"

definition binary64 :: "rat \<Rightarrow> pyfloat" where
  "binary64 x =
     (if x = 0 then Fin 0
      else (let a = \<bar>x\<bar>;
                e = max (floor_log2 a) (- 1022);
                u = pow2 (e - 52);
                y = of_int (round_half_even (a / u)) * u
            in if 2 ^ 1024 \<le> y then (if 0 < x then PInf else NInf)
               else Fin (if 0 < x then y else - y)))"

definition float_sign :: "pyfloat \<Rightarrow> int" where
  "float_sign x = (case x of Fin q \<Rightarrow> sgn \<lfloor>sgn q\<rfloor> | PInf \<Rightarrow> 1 | NInf \<Rightarrow> - 1 | NaN \<Rightarrow> 0)"

definition signed_inf :: "int \<Rightarrow> pyfloat" where
  "signed_inf s = (if 0 < s then PInf else NInf)"

definition is_inf :: "pyfloat \<Rightarrow> bool" where
  "is_inf x = (x = PInf \<or> x = NInf)"

text \<open>\<open>x * y\<close> on floats: never raises.\<close>

definition float_mul :: "pyfloat \<Rightarrow> pyfloat \<Rightarrow> pyfloat" where
  "float_mul x y =
     (case (x, y) of
        (Fin a, Fin b) \<Rightarrow> binary64 (a * b)
      | _ \<Rightarrow> if x = NaN \<or> y = NaN \<or> x = Fin 0 \<or> y = Fin 0 then NaN
             else signed_inf (float_sign x * float_sign y))"

text \<open>
  \<open>x / y\<close> on floats where \<open>y\<close> is not zero; \<open>py_truediv\<close> is the operator
  itself, which raises on a zero divisor.
\<close>

definition float_quot :: "pyfloat \<Rightarrow> pyfloat \<Rightarrow> pyfloat" where
  "float_quot x y =
     (case (x, y) of
        (Fin a, Fin b) \<Rightarrow> binary64 (a / b)
      | _ \<Rightarrow> if x = NaN \<or> y = NaN \<or> (is_inf x \<and> is_inf y) then NaN
             else if is_inf y then Fin 0
             else signed_inf (float_sign x * float_sign y))"

definition py_truediv :: "pyfloat \<Rightarrow> pyfloat \<Rightarrow> py_error + pyfloat" where
  "py_truediv x y = (if y = Fin 0 then Inl ZeroDivisionError else Inr (float_quot x y))"

text \<open>
  \<open>round(x, 1)\<close>: the exact value is rounded to one decimal, ties to even, and the
  decimal is converted back to the nearest float; an infinity or a NaN is returned as it
  is.
\<close>

definition py_round1 :: "pyfloat \<Rightarrow> pyfloat" where
  "py_round1 x = (case x of Fin a \<Rightarrow> binary64 (of_int (round_half_even (a * 10)) / 10) | _ \<Rightarrow> x)"

subsection \<open>Strings\<close>

definition is_space :: "char \<Rightarrow> bool" where
  "is_space c = (c \<in> set [CHR 0x09, CHR 0x0A, CHR 0x0B, CHR 0x0C, CHR 0x0D,
                           CHR 0x1C, CHR 0x1D, CHR 0x1E, CHR 0x1F, CHR 0x20])"

definition is_digit :: "char \<Rightarrow> bool" where
  "is_digit c = (c \<in> set ''0123456789'')"

definition py_strip :: "string \<Rightarrow> string" where
  "py_strip s = rev (dropWhile is_space (rev (dropWhile is_space s)))"

text \<open>\<open>re.sub(r'\s+', ' ', text)\<close>\<close>

function sub_ws :: "string \<Rightarrow> string" where
  "sub_ws [] = []"
| "sub_ws (c # cs) =
     (if is_space c then CHR 0x20 # sub_ws (dropWhile is_space cs) else c # sub_ws cs)"
  by pat_completeness auto
termination
  by (relation "measure length") (auto simp: length_dropWhile_le less_Suc_eq_le)

text \<open>\<open>sep.join(xs)\<close>\<close>

fun py_join :: "string \<Rightarrow> string list \<Rightarrow> string" where
  "py_join sep [] = []"
| "py_join sep [x] = x"
| "py_join sep (x # y # ys) = x @ sep @ py_join sep (y # ys)"

text \<open>\<open>text.split(d)\<close> for a one-character delimiter\<close>

fun py_split :: "char \<Rightarrow> string \<Rightarrow> string list" where
  "py_split d [] = [[]]"
| "py_split d (c # cs) =
     (if c = d then [] # py_split d cs
      else (case py_split d cs of [] \<Rightarrow> [[c]] | w # ws \<Rightarrow> (c # w) # ws))"

definition startswith :: "string \<Rightarrow> string \<Rightarrow> bool" where
  "startswith s p = (take (length p) s = p)"

fun contains :: "string \<Rightarrow> string \<Rightarrow> bool" where
  "contains [] p = (p = [])"
| "contains (c # cs) p = (startswith (c # cs) p \<or> contains cs p)"

definition py_lower_char :: "char \<Rightarrow> char" where
  "py_lower_char c =
     (case map_of (zip ''ABCDEFGHIJKLMNOPQRSTUVWXYZ'' ''abcdefghijklmnopqrstuvwxyz'') c of
        Some l \<Rightarrow> l | None \<Rightarrow> c)"

definition py_lower :: "string \<Rightarrow> string" where
  "py_lower s = map py_lower_char s"

definition isdigit :: "string \<Rightarrow> bool" where
  "isdigit s = (s \<noteq> [] \<and> list_all is_digit s)"

definition digit_val :: "char \<Rightarrow> int" where
  "digit_val c = (case map_of (zip ''0123456789'' [0, 1, 2, 3, 4, 5, 6, 7, 8, 9]) c of
                    Some v \<Rightarrow> v | None \<Rightarrow> 0)"

text \<open>\<open>int(s)\<close> for a string of decimal digits\<close>

definition int_of_digits :: "string \<Rightarrow> int" where
  "int_of_digits s = foldl (\<lambda>acc c. 10 * acc + digit_val c) 0 s"

text \<open>\<open>str(n)\<close> for an integer, as an f-string formats it\<close>

function str_nat :: "nat \<Rightarrow> string" where
  "str_nat n = (if n < 10 then [''0123456789'' ! n] else str_nat (n div 10) @ [''0123456789'' ! (n mod 10)])"
  by pat_completeness auto
termination
  by (relation "measure id") auto

definition str_int :: "int \<Rightarrow> string" where
  "str_int i = (if i < 0 then CHR ''-'' # str_nat (nat (- i)) else str_nat (nat i))"

section \<open>The outside world\<close>

text \<open>
  The libraries and the network are parameters of the model: \<open>http_get n url\<close> is the
  page that \<open>session.get(url)\<close> returns and BeautifulSoup parses when \<open>n\<close>
  requests were made before it in the session (\<open>None\<close> when the request raises a
  \<open>RequestException\<close>), \<open>urljoin\<close> and \<open>urlparse_path\<close> are
  \<open>urllib.parse.urljoin\<close> and the \<open>path\<close> of \<open>urllib.parse.urlparse\<close>,
  \<open>md5_hexdigest s\<close> is \<open>hashlib.md5(s.encode()).hexdigest()\<close>,
  \<open>float_of_str\<close> is \<open>float(s)\<close> (\<open>None\<close> for a \<open>ValueError\<close>), and
  \<open>set_iter\<close> proposes the order in which a Python set of strings is iterated.
\<close>

datatype element = Element
  (el_attrs: "(string \<times> string) list")
  (el_classes: "string list")
  (el_strings: "string list")
  (el_string: "string option")
  (el_select: "string \<Rightarrow> element list")
  (el_find_parent: "string \<Rightarrow> element option")

text \<open>
  A parsed page or tag is modelled by what the scraper can ask of it: \<open>el_attrs\<close> are
  its single-valued attributes, \<open>el_classes\<close> its \<open>class\<close> list, \<open>el_strings\<close> the
  text strings below it in document order, \<open>el_string\<close> its \<open>.string\<close>,
  \<open>el_select sel\<close> the tags that \<open>tag.select(sel)\<close> returns in document order and
  \<open>el_find_parent name\<close> the result of \<open>tag.find_parent(name)\<close>.
\<close>

record env =
  http_get :: "nat \<Rightarrow> string \<Rightarrow> element option"
  urljoin :: "string \<Rightarrow> string \<Rightarrow> string"
  urlparse_path :: "string \<Rightarrow> string"
  md5_hexdigest :: "string \<Rightarrow> string"
  float_of_str :: "string \<Rightarrow> pyfloat option"
  set_iter :: "string list \<Rightarrow> string list"

definition select_one :: "element \<Rightarrow> string \<Rightarrow> element option" where
  "select_one t sel = (case el_select t sel of [] \<Rightarrow> None | x # _ \<Rightarrow> Some x)"

text \<open>\<open>tag.get(name)\<close> for a single-valued attribute\<close>

definition el_get :: "element \<Rightarrow> string \<Rightarrow> string option" where
  "el_get t name = map_of (el_attrs t) name"

text \<open>\<open>tag.get_text()\<close>, \<open>tag.get_text(strip=True)\<close> and \<open>tag.get_text(sep, strip=True)\<close>\<close>

definition get_text :: "element \<Rightarrow> string" where
  "get_text t = concat (el_strings t)"

definition stripped_strings :: "element \<Rightarrow> string list" where
  "stripped_strings t = filter (\<lambda>s. s \<noteq> []) (map py_strip (el_strings t))"

definition get_text_strip :: "element \<Rightarrow> string" where
  "get_text_strip t = concat (stripped_strings t)"

definition get_text_sep_strip :: "string \<Rightarrow> element \<Rightarrow> string" where
  "get_text_sep_strip sep t = py_join sep (stripped_strings t)"

text \<open>\<open>a or b\<close> where \<open>a\<close> is an optional tag: a tag is always true.\<close>

definition or_else :: "'a option \<Rightarrow> 'a option \<Rightarrow> 'a option" where
  "or_else a b = (case a of Some x \<Rightarrow> Some x | None \<Rightarrow> b)"

text \<open>The elements of a Python set built by adding \<open>xs\<close> in turn, in iteration order.\<close>

definition py_set_list :: "env \<Rightarrow> string list \<Rightarrow> string list" where
  "py_set_list E xs =
     (let ys = remdups xs; zs = set_iter E ys
      in if distinct zs \<and> set zs = set ys then zs else ys)"

section \<open>scraper\_utils.py\<close>

definition clean_text :: "string \<Rightarrow> string" where
  "clean_text text = (if text = [] then [] else py_strip (sub_ws text))"

text \<open>\<open>re.search(r'(19|20)\d{2}', text)\<close>, the match converted by \<open>int\<close>\<close>

fun extract_year :: "string \<Rightarrow> int option" where
  "extract_year (a # b # x # y # rest) =
     (if ([a, b] = ''19'' \<or> [a, b] = ''20'') \<and> is_digit x \<and> is_digit y
      then Some (int_of_digits [a, b, x, y])
      else extract_year (b # x # y # rest))"
| "extract_year _ = None"

definition normalize_rating :: "pyfloat \<Rightarrow> pyfloat \<Rightarrow> pyfloat" where
  "normalize_rating rating max_rating =
     (if max_rating = Fin 0 then Fin 0
      else py_round1 (float_mul (float_quot rating max_rating) (Fin 10)))"

definition generate_id :: "env \<Rightarrow> string \<Rightarrow> string \<Rightarrow> string" where
  "generate_id E text prefix =
     (let hash_hex = take 12 (md5_hexdigest E text)
      in if prefix \<noteq> [] then prefix @ ''_'' @ hash_hex else hash_hex)"

definition split_list :: "string \<Rightarrow> string list" where
  "split_list text =
     (if text = [] then []
      else filter (\<lambda>s. s \<noteq> []) (map py_strip (py_split (CHR '','') text)))"

subsection \<open>Documents\<close>

text \<open>
  A document is a Python dict from field names to values, kept as an association list
  in insertion order.
\<close>

datatype pyval = PNone | PInt int | PFloat pyfloat | PStr string | PList "string list"

type_synonym document = "(string \<times> pyval) list"

definition opt_val :: "('a \<Rightarrow> pyval) \<Rightarrow> 'a option \<Rightarrow> pyval" where
  "opt_val f x = (case x of None \<Rightarrow> PNone | Some v \<Rightarrow> f v)"

definition dict_get :: "document \<Rightarrow> string \<Rightarrow> pyval option" where
  "dict_get d k = map_of d k"

fun dict_set :: "document \<Rightarrow> string \<Rightarrow> pyval \<Rightarrow> document" where
  "dict_set [] k v = [(k, v)]"
| "dict_set ((k', v') # d) k v = (if k' = k then (k, v) # d else (k', v') # dict_set d k v)"

text \<open>\<open>d.update(other)\<close>\<close>

definition dict_update :: "document \<Rightarrow> document \<Rightarrow> document" where
  "dict_update d other = foldl (\<lambda>acc (k, v). dict_set acc k v) d other"

definition list_or_empty :: "string list option \<Rightarrow> string list" where
  "list_or_empty xs = (case xs of Some (y # ys) \<Rightarrow> y # ys | _ \<Rightarrow> [])"

definition create_movie_document ::
  "env \<Rightarrow> string \<Rightarrow> int \<Rightarrow> string \<Rightarrow> string \<Rightarrow> pyfloat option \<Rightarrow> string list option \<Rightarrow>
   string list option \<Rightarrow> string list option \<Rightarrow> string \<Rightarrow> string \<Rightarrow> int option \<Rightarrow> document" where
  "create_movie_document E title year site url rating genres directors cast plot reviews
     num_reviews =
     (let id_text = title @ ''_'' @ str_int year @ ''_'' @ site;
          doc_id = generate_id E id_text site
      in [(''id'', PStr doc_id),
          (''title'', PStr title),
          (''year'', PInt year),
          (''site'', PStr site),
          (''url'', PStr url),
          (''rating'', opt_val PFloat rating),
          (''genres'', PList (list_or_empty genres)),
          (''directors'', PList (list_or_empty directors)),
          (''cast'', PList (list_or_empty cast)),
          (''plot'', PStr plot),
          (''reviews'', PStr reviews),
          (''num_reviews'', opt_val PInt num_reviews)])"

section \<open>scrape\_roger\_ebert.py\<close>

definition BASE_URL :: string where
  "BASE_URL = ''https://www.rogerebert.com''"

definition START_LISTING_URLS :: "string list" where
  "START_LISTING_URLS = [''https://www.rogerebert.com/'', ''https://www.rogerebert.com/reviews'']"

record ListingEntry =
  le_title :: string
  le_url :: string
  le_year :: "int option"
  le_critic :: "string option"
  le_summary :: string

record ReviewDetails =
  review_text :: string
  rating_value :: "pyfloat option"
  rating_scale :: pyfloat
  review_date :: "string option"
  critic :: "string option"
  movie_year :: "int option"
  movie_title :: "string option"
  movie_genres :: "string list"
  movie_directors :: "string list"
  movie_cast :: "string list"

subsection \<open>Extraction helpers\<close>

text \<open>\<open>tag and tag.get(name)\<close>: the attribute when the tag exists and the attribute is
  a non-empty string.\<close>

definition attr_of :: "element option \<Rightarrow> string \<Rightarrow> string option" where
  "attr_of t name =
     (case t of None \<Rightarrow> None
      | Some el \<Rightarrow> (case el_get el name of Some (c # cs) \<Rightarrow> Some (c # cs) | _ \<Rightarrow> None))"

text \<open>The loop over the classes of the star image: the first class \<open>starNN\<close> whose
  digits convert gives \<open>NN / 10.0\<close>.\<close>

fun star_class_rating :: "env \<Rightarrow> string list \<Rightarrow> pyfloat option" where
  "star_class_rating E [] = None"
| "star_class_rating E (cls # rest) =
     (if startswith cls ''star'' \<and> isdigit (drop 4 cls)
      then (case float_of_str E (drop 4 cls) of
              Some v \<Rightarrow> Some (float_quot v (Fin 10))
            | None \<Rightarrow> star_class_rating E rest)
      else star_class_rating E rest)"

definition extract_rating_star :: "env \<Rightarrow> element \<Rightarrow> pyfloat option" where
  "extract_rating_star E soup =
     (case attr_of (select_one soup ''span.star-rating'') ''data-rating'' of
        Some v \<Rightarrow> float_of_str E v
      | None \<Rightarrow> None)"

definition extract_rating_star_box :: "env \<Rightarrow> element \<Rightarrow> pyfloat option" where
  "extract_rating_star_box E soup =
     (case select_one soup ''div.star-box img.filled'' of
        Some star_box \<Rightarrow>
          (case star_class_rating E (el_classes star_box) of
             Some v \<Rightarrow> Some v
           | None \<Rightarrow> extract_rating_star E soup)
      | None \<Rightarrow> extract_rating_star E soup)"

definition extract_rating :: "env \<Rightarrow> element \<Rightarrow> pyfloat option" where
  "extract_rating E soup =
     (case attr_of (select_one soup ''meta[itemprop=\"ratingValue\"]'') ''content'' of
        Some c \<Rightarrow>
          (case float_of_str E c of
             Some v \<Rightarrow> Some v
           | None \<Rightarrow> extract_rating_star_box E soup)
      | None \<Rightarrow> extract_rating_star_box E soup)"

definition extract_review_date :: "element \<Rightarrow> string option" where
  "extract_review_date soup =
     (case attr_of (select_one soup ''meta[itemprop=\"datePublished\"]'') ''content'' of
        Some c \<Rightarrow> Some c
      | None \<Rightarrow>
          (case attr_of (select_one soup ''meta[property=\"og:updated_time\"]'') ''content'' of
             Some c \<Rightarrow> Some (hd (py_split (CHR ''T'') c))
           | None \<Rightarrow>
               (case or_else (select_one soup ''span.review-info__date'')
                       (select_one soup ''span.publish-date'') of
                  Some date_el \<Rightarrow> Some (clean_text (get_text date_el))
                | None \<Rightarrow> None)))"

definition extract_critic :: "element \<Rightarrow> string option" where
  "extract_critic soup =
     (case attr_of (select_one soup ''meta[name=\"author\"]'') ''content'' of
        Some c \<Rightarrow> Some c
      | None \<Rightarrow>
          (case select_one soup ''a[href*=\"/contributors/\"]'' of
             Some author_link \<Rightarrow> Some (clean_text (get_text author_link))
           | None \<Rightarrow>
               (case or_else (select_one soup ''.byline__name'') (select_one soup ''a.author'') of
                  Some author_el \<Rightarrow> Some (clean_text (get_text author_el))
                | None \<Rightarrow> None)))"

definition extract_movie_title :: "element \<Rightarrow> string option" where
  "extract_movie_title soup =
     (case or_else (select_one soup ''h1.page-title'') (select_one soup ''h1'') of
        Some heading \<Rightarrow> Some (clean_text (get_text heading))
      | None \<Rightarrow> None)"

definition extract_summary :: "element \<Rightarrow> string" where
  "extract_summary soup =
     (case or_else (select_one soup ''.review-info__deck'')
             (select_one soup ''.article-info__deck'') of
        Some summary_el \<Rightarrow> clean_text (get_text_sep_strip '' '' summary_el)
      | None \<Rightarrow>
          (case attr_of (or_else (select_one soup ''meta[name=\"description\"]'')
                           (select_one soup ''meta[property=\"og:description\"]'')) ''content'' of
             Some c \<Rightarrow> clean_text c
           | None \<Rightarrow> []))"

definition extract_primary_credit_column :: "element \<Rightarrow> element option" where
  "extract_primary_credit_column soup =
     (case select_one soup ''#content-lower'' of
        None \<Rightarrow> None
      | Some container \<Rightarrow>
          (case select_one container ''.credit-col h4.page-title'' of
             Some heading \<Rightarrow> el_find_parent heading ''div''
           | None \<Rightarrow> None))"

fun genres_loop :: "string list \<Rightarrow> element list \<Rightarrow> string list" where
  "genres_loop genres [] = genres"
| "genres_loop genres (link # links) =
     (let text = clean_text (get_text link)
      in if text \<noteq> [] \<and> py_lower text \<noteq> ''movie reviews'' \<and> text \<notin> set genres
         then genres_loop (genres @ [text]) links
         else genres_loop genres links)"

definition extract_genres :: "element \<Rightarrow> string list" where
  "extract_genres soup =
     (case extract_primary_credit_column soup of
        None \<Rightarrow> []
      | Some column \<Rightarrow> genres_loop [] (el_select column ''a[href*='/genre/']''))"

definition nonempty_texts :: "string list \<Rightarrow> string list" where
  "nonempty_texts xs = filter (\<lambda>s. s \<noteq> []) xs"

fun credit_loop :: "string list \<Rightarrow> string list \<Rightarrow> element list \<Rightarrow> string list" where
  "credit_loop labels vals [] = vals"
| "credit_loop labels vals (column # columns) =
     (case select_one column ''h4'' of
        None \<Rightarrow> credit_loop labels vals columns
      | Some heading \<Rightarrow>
          (if py_lower (clean_text (get_text heading)) \<notin> set (map py_lower labels)
           then credit_loop labels vals columns
           else (let links = el_select column ''li a''
                 in if links \<noteq> []
                    then credit_loop labels
                           (vals @ nonempty_texts (map (\<lambda>l. clean_text (get_text l)) links))
                           columns
                    else credit_loop labels
                           (vals @ nonempty_texts
                              (map (\<lambda>i. clean_text (get_text_sep_strip '' '' i))
                                 (el_select column ''li'')))
                           columns)))"

definition extract_credit_list :: "element \<Rightarrow> string list \<Rightarrow> string list" where
  "extract_credit_list soup labels =
     credit_loop labels [] (el_select soup ''#content-lower .credit-col'')"

fun metadata_loop :: "string list \<Rightarrow> string list \<Rightarrow> element list \<Rightarrow> string list" where
  "metadata_loop labels vals [] = vals"
| "metadata_loop labels vals (item # items) =
     (case (select_one item ''span.review-info__label'',
            select_one item ''span.review-info__value'') of
        (Some label_el, Some value_el) \<Rightarrow>
          (if py_lower (clean_text (get_text label_el)) \<notin> set (map py_lower labels)
           then metadata_loop labels vals items
           else metadata_loop labels
                  (vals @ split_list (get_text_sep_strip '', '' value_el)) items)
      | _ \<Rightarrow> metadata_loop labels vals items)"

definition extract_metadata_list :: "element \<Rightarrow> string list \<Rightarrow> string list" where
  "extract_metadata_list soup labels =
     (let vals = metadata_loop labels [] (el_select soup ''div.review-info__item'')
      in if vals \<noteq> [] then vals else extract_credit_list soup labels)"

definition extract_review_body :: "element \<Rightarrow> string" where
  "extract_review_body soup =
     (case or_else (select_one soup ''div.review__body'')
             (or_else (select_one soup ''div.article-body'')
                (select_one soup ''div.entry-content'')) of
        None \<Rightarrow> []
      | Some body \<Rightarrow>
          py_join '' ''
            (map (get_text_sep_strip '' '')
               (filter (\<lambda>p. get_text_strip p \<noteq> []) (el_select body ''p''))))"

text \<open>\<open>a or b\<close> on strings and on lists: the first when it is not empty.\<close>

definition or_nonempty :: "'a list \<Rightarrow> 'a list \<Rightarrow> 'a list" where
  "or_nonempty a b = (if a \<noteq> [] then a else b)"

text \<open>The part of \<open>_fetch_review\<close> after the page was fetched.\<close>

definition review_of_soup :: "env \<Rightarrow> element \<Rightarrow> ReviewDetails" where
  "review_of_soup E soup =
     (let rating = extract_rating E soup;
          date = extract_review_date soup;
          crit = extract_critic soup;
          mtitle = extract_movie_title soup;
          myear = (case mtitle of Some (c # cs) \<Rightarrow> extract_year (c # cs) | _ \<Rightarrow> None);
          summary = extract_summary soup;
          genres = or_nonempty (extract_genres soup)
                     (extract_metadata_list soup [''Genre'', ''Genres'']);
          directors = extract_metadata_list soup [''Directed by'', ''Director''];
          cast = extract_credit_list soup [''Cast''];
          text = extract_review_body soup
      in \<lparr> review_text = or_nonempty text summary,
           rating_value = rating,
           rating_scale = Fin 4,
           review_date = date,
           critic = crit,
           movie_year = myear,
           movie_title = mtitle,
           movie_genres = genres,
           movie_directors = directors,
           movie_cast = cast \<rparr>)"

subsection \<open>Document builder\<close>

definition or_str_opt :: "string option \<Rightarrow> string option \<Rightarrow> string option" where
  "or_str_opt a b = (case a of Some (c # cs) \<Rightarrow> Some (c # cs) | _ \<Rightarrow> b)"

definition or_int_opt :: "int option \<Rightarrow> int option \<Rightarrow> int option" where
  "or_int_opt a b = (case a of Some y \<Rightarrow> if y \<noteq> 0 then Some y else b | None \<Rightarrow> b)"

definition build_document :: "env \<Rightarrow> ListingEntry \<Rightarrow> ReviewDetails \<Rightarrow> document" where
  "build_document E entry details =
     (let rating_normalized =
            (case rating_value details of
               None \<Rightarrow> None
             | Some v \<Rightarrow> Some (normalize_rating v (rating_scale details)));
          title = (case movie_title details of Some (c # cs) \<Rightarrow> c # cs | _ \<Rightarrow> le_title entry);
          year = or_int_opt (movie_year details) (le_year entry);
          doc = create_movie_document E title
                  (case year of Some y \<Rightarrow> y | None \<Rightarrow> 0)
                  ''rogerebert'' (le_url entry) rating_normalized
                  (Some (movie_genres details)) (Some (movie_directors details))
                  (Some (movie_cast details))
                  (or_nonempty (le_summary entry) (review_text details))
                  (review_text details) None
      in dict_update doc
           [(''critic'', opt_val PStr (or_str_opt (critic details) (le_critic entry))),
            (''review_date'', opt_val PStr (review_date details)),
            (''rating_value'', opt_val PFloat (rating_value details)),
            (''rating_scale'', PFloat (rating_scale details)),
            (''summary'', PStr (le_summary entry))])"

subsection \<open>Listing pages\<close>

definition looks_like_review :: "env \<Rightarrow> string \<Rightarrow> bool" where
  "looks_like_review E url =
     (let path = urlparse_path E url
      in startswith path ''/reviews/'' \<and> 2 \<le> count_list path (CHR ''-''))"

definition extract_summary_near_link :: "element \<Rightarrow> string" where
  "extract_summary_near_link link =
     (case or_else (el_find_parent link ''article'') (el_find_parent link ''div'') of
        None \<Rightarrow> []
      | Some parent \<Rightarrow>
          (case or_else (select_one parent ''.review-stack__tease'') (select_one parent ''p'') of
             Some teaser \<Rightarrow> clean_text (get_text teaser)
           | None \<Rightarrow> []))"

fun listing_loop ::
  "env \<Rightarrow> ListingEntry list \<Rightarrow> string set \<Rightarrow> element list \<Rightarrow> ListingEntry list" where
  "listing_loop E entries seen_urls [] = entries"
| "listing_loop E entries seen_urls (link # links) =
     (case attr_of (Some link) ''href'' of
        None \<Rightarrow> listing_loop E entries seen_urls links
      | Some href \<Rightarrow>
          (let review_url = urljoin E BASE_URL href
           in if \<not> looks_like_review E review_url then listing_loop E entries seen_urls links
              else if review_url \<in> seen_urls then listing_loop E entries seen_urls links
              else (let title = or_nonempty (clean_text (get_text link)) ''Untitled Review'';
                        summary = extract_summary_near_link link;
                        year = or_int_opt (extract_year title) (extract_year summary);
                        entries' = entries @ [\<lparr> le_title = title, le_url = review_url,
                                      le_year = year, le_critic = None, le_summary = summary \<rparr>]
                    in if 50 \<le> length entries' then entries'
                       else listing_loop E entries' (insert review_url seen_urls) links)))"

text \<open>\<open>soup.find("a", string=lambda text: text and "More Reviews" in text)\<close>\<close>

definition find_load_more :: "element \<Rightarrow> element option" where
  "find_load_more soup =
     find (\<lambda>a. case el_string a of Some (c # cs) \<Rightarrow> contains (c # cs) ''More Reviews''
                | _ \<Rightarrow> False)
       (el_select soup ''a'')"

definition add_href :: "env \<Rightarrow> string \<Rightarrow> element option \<Rightarrow> string list \<Rightarrow> string list" where
  "add_href E current_url t urls =
     (case attr_of t ''href'' of
        Some href \<Rightarrow> urls @ [urljoin E current_url href]
      | None \<Rightarrow> urls)"

definition extract_next_listing_urls :: "env \<Rightarrow> element \<Rightarrow> string \<Rightarrow> string list" where
  "extract_next_listing_urls E soup current_url =
     (let urls = add_href E current_url (select_one soup ''link[rel=\"next\"]'') [];
          urls = add_href E current_url
                   (or_else (select_one soup ''a[rel=\"next\"]'')
                      (select_one soup ''.pagination__next a'')) urls;
          urls = add_href E current_url (find_load_more soup) urls
      in filter (\<lambda>u. startswith u BASE_URL) (py_set_list E urls))"

definition parse_listing :: "env \<Rightarrow> element \<Rightarrow> string \<Rightarrow> ListingEntry list \<times> string list" where
  "parse_listing E soup source_url =
     (listing_loop E [] {} (el_select soup ''a[href*=\"/reviews/\"]''),
      extract_next_listing_urls E soup source_url)"

subsection \<open>The crawl\<close>

text \<open>
  The session state: the fields the crawl loop updates, the log of the requests made
  (\<open>_get_soup\<close> calls, in order) and the log of the snapshots that \<open>save\<close> wrote to
  the output file.
\<close>

datatype request = ListingFetch string | DetailFetch string

record crawl_state =
  documents :: "document list"
  seen_review_urls :: "pyval set"
  collected :: nat
  listing_queue :: "string list"
  requests :: "request list"
  written :: "document list list"

text \<open>The output file at session start: absent, not decodable, or an array of objects.\<close>

datatype checkpoint = NoFile | Corrupt | Docs "document list"

definition save :: "crawl_state \<Rightarrow> crawl_state" where
  "save s = (if documents s = [] then s else s\<lparr> written := written s @ [documents s] \<rparr>)"

text \<open>\<open>seen_review_urls.add(doc['url'])\<close> for each loaded document with a \<open>url\<close> key; a
  list is not hashable.\<close>

fun load_seen :: "pyval set \<Rightarrow> document list \<Rightarrow> py_error + pyval set" where
  "load_seen seen [] = Inr seen"
| "load_seen seen (doc # docs) =
     (case dict_get doc ''url'' of
        None \<Rightarrow> load_seen seen docs
      | Some (PList xs) \<Rightarrow> Inl TypeError
      | Some v \<Rightarrow> load_seen (insert v seen) docs)"

definition enqueue :: "string list \<Rightarrow> string list \<Rightarrow> string list" where
  "enqueue queue urls = foldl (\<lambda>q u. if u \<in> set q then q else q @ [u]) queue urls"

definition initial_queue :: "int \<Rightarrow> string list" where
  "initial_queue start_page =
     enqueue (if 1 < start_page
              then [''https://www.rogerebert.com/reviews/page/'' @ str_int start_page] else [])
       START_LISTING_URLS"

definition crawl_init :: "checkpoint \<Rightarrow> int \<Rightarrow> py_error + crawl_state" where
  "crawl_init ckpt start_page =
     (let docs = (case ckpt of Docs ds \<Rightarrow> ds | _ \<Rightarrow> [])
      in case load_seen {} docs of
           Inl e \<Rightarrow> Inl e
         | Inr seen \<Rightarrow>
             Inr \<lparr> documents = docs, seen_review_urls = seen, collected = 0,
                   listing_queue = initial_queue start_page, requests = [], written = [] \<rparr>)"

definition fetch_review :: "env \<Rightarrow> nat \<Rightarrow> string \<Rightarrow> ReviewDetails option" where
  "fetch_review E n url = map_option (review_of_soup E) (http_get E n url)"

fun process_entries :: "env \<Rightarrow> int \<Rightarrow> crawl_state \<Rightarrow> ListingEntry list \<Rightarrow> crawl_state" where
  "process_entries E limit s [] = s"
| "process_entries E limit s (entry # entries) =
     (if limit \<le> int (collected s) then s
      else if PStr (le_url entry) \<in> seen_review_urls s then process_entries E limit s entries
      else (let s1 = s\<lparr> requests := requests s @ [DetailFetch (le_url entry)] \<rparr>
            in case fetch_review E (length (requests s)) (le_url entry) of
                 None \<Rightarrow> process_entries E limit s1 entries
               | Some details \<Rightarrow>
                   (let s2 = s1\<lparr> documents := documents s1 @ [build_document E entry details],
                                 seen_review_urls := insert (PStr (le_url entry)) (seen_review_urls s1),
                                 collected := collected s1 + 1 \<rparr>;
                        s3 = (if collected s2 mod 10 = 0 then save s2 else s2)
                    in process_entries E limit s3 entries)))"

text \<open>One pass of the body of the \<open>while\<close> loop, entered with a non-empty queue.\<close>

definition listing_iteration :: "env \<Rightarrow> int \<Rightarrow> crawl_state \<Rightarrow> crawl_state" where
  "listing_iteration E limit s =
     (case listing_queue s of
        [] \<Rightarrow> s
      | listing_url # rest \<Rightarrow>
          (let s1 = s\<lparr> listing_queue := rest,
                       requests := requests s @ [ListingFetch listing_url] \<rparr>
           in case http_get E (length (requests s)) listing_url of
                None \<Rightarrow> s1
              | Some soup \<Rightarrow>
                  (case parse_listing E soup listing_url of
                     (entries, discovered_next) \<Rightarrow>
                       (let s2 = s1\<lparr> listing_queue := enqueue (listing_queue s1) discovered_next \<rparr>
                        in if entries = [] then s2 else process_entries E limit s2 entries))))"

definition loop_cond :: "int \<Rightarrow> crawl_state \<Rightarrow> bool" where
  "loop_cond limit s = (listing_queue s \<noteq> [] \<and> int (collected s) < limit)"

text \<open>The \<open>while\<close> loop with fuel: \<open>None\<close> when the loop is still running after
  \<open>fuel\<close> passes.\<close>

fun crawl_loop :: "env \<Rightarrow> int \<Rightarrow> nat \<Rightarrow> crawl_state \<Rightarrow> crawl_state option" where
  "crawl_loop E limit 0 s = (if loop_cond limit s then None else Some s)"
| "crawl_loop E limit (Suc fuel) s =
     (if loop_cond limit s then crawl_loop E limit fuel (listing_iteration E limit s) else Some s)"

text \<open>The state after at most \<open>n\<close> passes of the loop.\<close>

fun crawl_steps :: "env \<Rightarrow> int \<Rightarrow> nat \<Rightarrow> crawl_state \<Rightarrow> crawl_state" where
  "crawl_steps E limit 0 s = s"
| "crawl_steps E limit (Suc n) s =
     (if loop_cond limit s then crawl_steps E limit n (listing_iteration E limit s) else s)"


section \<open>Notions of the specification\<close>

text \<open>
  The rating formula in the specification's words:
  \<open>round((rating_value / rating_scale) * 10, 1)\<close>, as Python evaluates it.
\<close>

definition rating_formula :: "pyfloat \<Rightarrow> pyfloat \<Rightarrow> py_error + pyfloat" where
  "rating_formula v scale =
     (case py_truediv v scale of
        Inl e \<Rightarrow> Inl e
      | Inr q \<Rightarrow> Inr (py_round1 (float_mul q (Fin 10))))"

text \<open>
  The specification's content container of a detail page: the first selector of the
  ordered list that matches, and the text of a container: its non-empty paragraph texts
  in document order, joined by single spaces.
\<close>

definition content_containers :: "string list" where
  "content_containers = [''div.review__body'', ''div.article-body'', ''div.entry-content'']"

definition first_container :: "element \<Rightarrow> element option" where
  "first_container soup =
     (case filter (\<lambda>sel. select_one soup sel \<noteq> None) content_containers of
        [] \<Rightarrow> None
      | sel # _ \<Rightarrow> select_one soup sel)"

definition paragraphs_text :: "element \<Rightarrow> string" where
  "paragraphs_text body =
     py_join '' ''
       (map (get_text_sep_strip '' '')
          (filter (\<lambda>p. get_text_strip p \<noteq> []) (el_select body ''p'')))"

section \<open>Example pages\<close>

text \<open>A tag without children, a page given by the answers to its selectors, and an
  environment over a given web.\<close>

definition leaf :: "(string \<times> string) list \<Rightarrow> string list \<Rightarrow> element" where
  "leaf attrs strs =
     Element attrs [] strs (case strs of [s] \<Rightarrow> Some s | _ \<Rightarrow> None) (\<lambda>sel. []) (\<lambda>name. None)"

definition page :: "(string \<times> element list) list \<Rightarrow> element" where
  "page tbl =
     Element [] [] [] None (\<lambda>sel. case map_of tbl sel of Some xs \<Rightarrow> xs | None \<Rightarrow> [])
       (\<lambda>name. None)"

definition example_env :: "(nat \<Rightarrow> string \<Rightarrow> element option) \<Rightarrow> env" where
  "example_env web =
     \<lparr> http_get = web, urljoin = (\<lambda>base url. url),
       urlparse_path = drop (length BASE_URL),
       md5_hexdigest = (\<lambda>s. ''d41d8cd98f00b204e9800998ecf8427e''),
       float_of_str = (\<lambda>s. if s = ''3.0'' then Some (Fin 3) else None),
       set_iter = (\<lambda>xs. xs) \<rparr>"

definition no_web :: "nat \<Rightarrow> string \<Rightarrow> element option" where
  "no_web n url = None"

definition alien_entry :: ListingEntry where
  "alien_entry =
     \<lparr> le_title = ''Alien'', le_url = ''https://www.rogerebert.com/reviews/alien-1979-film'',
       le_year = None, le_critic = None, le_summary = [] \<rparr>"

text \<open>A detail page with a three-star rating and a title with a year.\<close>

definition rated_page :: element where
  "rated_page =
     page [(''meta[itemprop=\"ratingValue\"]'', [leaf [(''content'', ''3.0'')] []]),
           (''h1'', [leaf [] [''Alien (1979)'']])]"

text \<open>A detail page whose heading is empty.\<close>

definition empty_heading_page :: element where
  "empty_heading_page = page [(''h1'', [leaf [] []])]"

text \<open>A detail page with a description but no content container.\<close>

definition described_page :: element where
  "described_page =
     page [(''meta[name=\"description\"]'', [leaf [(''content'', ''A fine film.'')] []])]"

text \<open>A detail page with a content container of three paragraphs, one of them blank.\<close>

definition body_page :: element where
  "body_page =
     page [(''div.article-body'',
             [page [(''p'', [leaf [] [''In space ''], leaf [] ['' ''],
                            leaf [] [''no one '', '' can hear.'']])]])]"

section \<open>Notions of the crawl session\<close>

definition doc_url :: "document \<Rightarrow> pyval option" where
  "doc_url d = dict_get d ''url''"

text \<open>
  The session invariant relative to the loaded documents and the seeded seen set: the
  documents are the loaded ones followed by new ones with pairwise different urls, none
  of them seeded, all of them seen; the seen set only grows; no detail page of a seeded
  url was requested.
\<close>

definition session_inv :: "document list \<Rightarrow> pyval set \<Rightarrow> crawl_state \<Rightarrow> bool" where
  "session_inv docs0 seen0 s =
     (\<exists>new. documents s = docs0 @ new \<and> distinct (map doc_url new) \<and>
        (\<forall>d \<in> set new. \<exists>u. doc_url d = Some (PStr u) \<and> PStr u \<notin> seen0 \<and>
                               PStr u \<in> seen_review_urls s) \<and>
        seen0 \<subseteq> seen_review_urls s \<and>
        (\<forall>u. DetailFetch u \<in> set (requests s) \<longrightarrow> PStr u \<notin> seen0))"



section \<open>Example sites\<close>

definition fresh_state :: crawl_state where
  "fresh_state =
     \<lparr> documents = [], seen_review_urls = {}, collected = 0,
       listing_queue = START_LISTING_URLS, requests = [], written = [] \<rparr>"

text \<open>A site whose second listing page links back to the first.\<close>

definition cycle_web :: "nat \<Rightarrow> string \<Rightarrow> element option" where
  "cycle_web n url =
     (if url = ''https://www.rogerebert.com/'' then Some (page [])
      else if url = ''https://www.rogerebert.com/reviews''
      then Some (page [(''link[rel=\"next\"]'',
                         [leaf [(''href'', ''https://www.rogerebert.com/reviews/page/2'')] []])])
      else if url = ''https://www.rogerebert.com/reviews/page/2''
      then Some (page [(''a'', [leaf [(''href'', ''https://www.rogerebert.com/reviews'')]
                                  [''More Reviews'']])])
      else None)"

text \<open>A site with one listing page of eleven reviews; the home page cannot be fetched.\<close>

definition review_links :: "element list" where
  "review_links =
     map (\<lambda>c. leaf [(''href'', ''https://www.rogerebert.com/reviews/film-no-'' @ [c])]
                [''Film '', [c]])
       ''abcdefghijk''"

definition review_site :: "nat \<Rightarrow> string \<Rightarrow> element option" where
  "review_site n url =
     (if url = ''https://www.rogerebert.com/'' then None
      else if url = ''https://www.rogerebert.com/reviews''
      then Some (page [(''a[href*=\"/reviews/\"]'', review_links)])
      else Some described_page)"

text \<open>A checkpoint holding one document, of the first review of that site.\<close>

definition one_seen :: checkpoint where
  "one_seen = Docs [[(''url'', PStr ''https://www.rogerebert.com/reviews/film-no-a'')]]"

definition one_seen_state :: crawl_state where
  "one_seen_state =
     \<lparr> documents = [[(''url'', PStr ''https://www.rogerebert.com/reviews/film-no-a'')]],
       seen_review_urls = {PStr ''https://www.rogerebert.com/reviews/film-no-a''},
       collected = 0, listing_queue = START_LISTING_URLS, requests = [], written = [] \<rparr>"


section \<open>Origins\<close>

text \<open>
  The origin of an absolute URL in the specification's sense: its scheme and its host,
  as \<open>urllib.parse.urlsplit\<close> reads them (the host without user information and
  port, in lower case; bracketed IPv6 hosts aside).
\<close>

definition url_scheme :: "string \<Rightarrow> string" where
  "url_scheme url = takeWhile (\<lambda>c. c \<noteq> CHR '':'') url"

definition url_netloc :: "string \<Rightarrow> string" where
  "url_netloc url =
     (let rest = drop (length (url_scheme url) + 1) url
      in if startswith rest ''//'' then takeWhile (\<lambda>c. c \<notin> set ''/?#'') (drop 2 rest) else [])"

definition url_host :: "string \<Rightarrow> string" where
  "url_host url =
     (let n = url_netloc url;
          h = (if CHR ''@'' \<in> set n then rev (takeWhile (\<lambda>c. c \<noteq> CHR ''@'') (rev n)) else n)
      in py_lower (takeWhile (\<lambda>c. c \<noteq> CHR '':'') h))"

definition url_origin :: "string \<Rightarrow> string \<times> string" where
  "url_origin url = (py_lower (url_scheme url), url_host url)"

text \<open>A listing page whose \<open>next\<close> link points to another host.\<close>

definition foreign_url :: string where
  "foreign_url = ''https://www.rogerebert.com.attacker.example/reviews/page/2''"

definition foreign_next_page :: element where
  "foreign_next_page = page [(''link[rel=\"next\"]'', [leaf [(''href'', foreign_url)] []])]"

section \<open>Evaluation rules\<close>

lemmas extract_defs = review_of_soup_def extract_rating_def extract_rating_star_box_def
  extract_rating_star_def extract_review_date_def extract_critic_def extract_movie_title_def
  extract_summary_def extract_primary_credit_column_def extract_genres_def
  extract_credit_list_def extract_metadata_list_def extract_review_body_def
  select_one_def attr_of_def el_get_def or_else_def or_nonempty_def get_text_def
  get_text_sep_strip_def get_text_strip_def stripped_strings_def clean_text_def
  py_strip_def is_space_def

lemmas example_defs = page_def leaf_def example_env_def

lemma str_int_0: "str_int 0 = ''0''"
  by (simp add: str_int_def str_nat.simps[of 0])

section \<open>The document builder\<close>

lemma build_document_rating:
  "dict_get (build_document E e d) ''rating'' =
     Some (case rating_value d of None \<Rightarrow> PNone
           | Some v \<Rightarrow> PFloat (normalize_rating v (rating_scale d)))"
  by (simp add: build_document_def create_movie_document_def dict_update_def dict_get_def
      Let_def opt_val_def split: option.splits)

lemma build_document_title:
  "dict_get (build_document E e d) ''title'' =
     Some (PStr (case movie_title d of Some (c # cs) \<Rightarrow> c # cs | _ \<Rightarrow> le_title e))"
  by (simp add: build_document_def create_movie_document_def dict_update_def dict_get_def Let_def)

lemma build_document_year:
  "dict_get (build_document E e d) ''year'' =
     Some (PInt (case or_int_opt (movie_year d) (le_year e) of Some y \<Rightarrow> y | None \<Rightarrow> 0))"
  by (simp add: build_document_def create_movie_document_def dict_update_def dict_get_def Let_def)

lemma build_document_url:
  "dict_get (build_document E e d) ''url'' = Some (PStr (le_url e))"
  by (simp add: build_document_def create_movie_document_def dict_update_def dict_get_def Let_def)

lemma build_document_id:
  "dict_get (build_document E e d) ''id'' =
     Some (PStr (''rogerebert_'' @ take 12 (md5_hexdigest E
        ((case movie_title d of Some (c # cs) \<Rightarrow> c # cs | _ \<Rightarrow> le_title e) @ ''_'' @
         str_int (case or_int_opt (movie_year d) (le_year e) of Some y \<Rightarrow> y | None \<Rightarrow> 0) @
         ''_rogerebert''))))"
  by (simp add: build_document_def create_movie_document_def dict_update_def dict_get_def
      Let_def generate_id_def)

lemma review_of_soup_scale: "rating_scale (review_of_soup E soup) = Fin 4"
  by (simp add: review_of_soup_def Let_def)

lemma review_of_rated_page:
  "rating_value (review_of_soup (example_env no_web) rated_page) = Some (Fin 3)"
  by (simp add: extract_defs example_defs rated_page_def Let_def)

lemma extract_year_range: "extract_year s = Some y \<Longrightarrow> y \<noteq> 0"
proof (induction s rule: extract_year.induct)
  case (1 a b x y' rest)
  then show ?case
    by (auto simp: int_of_digits_def digit_val_def is_digit_def split: if_splits)
qed simp_all

text \<open>
  C3. For every document built from an extracted review: when the extracted
  \<open>rating_value\<close> is absent the document's \<open>rating\<close> is \<open>None\<close>; when it is
  present, \<open>round((rating_value / rating_scale) * 10, 1)\<close> evaluates without an error and
  the document's \<open>rating\<close> is its value.
\<close>

theorem built_document_rating:
  "(rating_value (review_of_soup E soup) = None \<longrightarrow>
      dict_get (build_document E entry (review_of_soup E soup)) ''rating'' = Some PNone) \<and>
   (\<forall>v. rating_value (review_of_soup E soup) = Some v \<longrightarrow>
      (\<exists>r. rating_formula v (rating_scale (review_of_soup E soup)) = Inr r \<and>
           dict_get (build_document E entry (review_of_soup E soup)) ''rating'' =
             Some (PFloat r)))"
  by (simp add: build_document_rating review_of_soup_scale rating_formula_def py_truediv_def
      normalize_rating_def)

theorem built_document_rating_witness:
  "rating_value (review_of_soup (example_env no_web) rated_page) = Some (Fin 3) \<and>
   (\<exists>r. rating_formula (Fin 3) (rating_scale (review_of_soup (example_env no_web) rated_page))
          = Inr r \<and>
        dict_get (build_document (example_env no_web) alien_entry
                    (review_of_soup (example_env no_web) rated_page)) ''rating'' =
          Some (PFloat r)) \<and>
   rating_value (review_of_soup (example_env no_web) described_page) = None \<and>
   dict_get (build_document (example_env no_web) alien_entry
               (review_of_soup (example_env no_web) described_page)) ''rating'' = Some PNone"
proof -
  have none: "rating_value (review_of_soup (example_env no_web) described_page) = None"
    by (simp add: extract_defs example_defs described_page_def Let_def)
  from built_document_rating [of "example_env no_web" rated_page alien_entry]
    built_document_rating [of "example_env no_web" described_page alien_entry]
    review_of_rated_page none
  show ?thesis by blast
qed

text \<open>
  C5. The document id is a function of title, year and site alone: the site name, an
  underscore, and the first 12 characters of the MD5 hex digest of
  \<open>"{title}_{year}_{site}"\<close>. (The crawler's site name is the constant
  \<open>rogerebert\<close>; an empty site name would give the bare digest prefix.)
\<close>

theorem document_id_deterministic:
  "site \<noteq> [] \<Longrightarrow>
   dict_get (create_movie_document E title year site url rating genres directors cast plot
               reviews num_reviews) ''id'' =
     Some (PStr (site @ ''_'' @
                 take 12 (md5_hexdigest E (title @ ''_'' @ str_int year @ ''_'' @ site))))"
  by (simp add: create_movie_document_def dict_get_def generate_id_def Let_def)

theorem document_id_deterministic_witness:
  "''rogerebert'' \<noteq> [] \<and>
   dict_get (create_movie_document (example_env no_web) ''Alien'' 1979 ''rogerebert''
               ''https://www.rogerebert.com/reviews/alien-1979-film'' None None None None
               [] [] None) ''id'' =
     Some (PStr (''rogerebert'' @ ''_'' @
                 take 12 (md5_hexdigest (example_env no_web)
                            (''Alien'' @ ''_'' @ str_int 1979 @ ''_'' @ ''rogerebert''))))"
  using document_id_deterministic [of "''rogerebert''" "example_env no_web" "''Alien''" 1979
      "''https://www.rogerebert.com/reviews/alien-1979-film''" None None None None "[]" "[]" None]
  by simp

text \<open>
  C10. When neither the detail page nor the listing entry yields a year, the document's
  \<open>year\<close> is the integer 0 and the hashed id string is \<open>"{title}_0_rogerebert"\<close>, so
  the id depends on the title alone.
\<close>

theorem yearless_document:
  "movie_year details = None \<Longrightarrow> le_year entry = None \<Longrightarrow>
   dict_get (build_document E entry details) ''year'' = Some (PInt 0) \<and>
   (\<exists>t. dict_get (build_document E entry details) ''title'' = Some (PStr t) \<and>
        dict_get (build_document E entry details) ''id'' =
          Some (PStr (''rogerebert_'' @ take 12 (md5_hexdigest E (t @ ''_0_rogerebert'')))))"
  by (simp add: build_document_year build_document_title build_document_id or_int_opt_def
      str_int_0)

theorem yearless_document_witness:
  "movie_year (review_of_soup (example_env no_web) described_page) = None \<and>
   le_year alien_entry = None \<and>
   dict_get (build_document (example_env no_web) alien_entry
               (review_of_soup (example_env no_web) described_page)) ''year'' = Some (PInt 0) \<and>
   (\<exists>t. dict_get (build_document (example_env no_web) alien_entry
                    (review_of_soup (example_env no_web) described_page)) ''title'' =
          Some (PStr t) \<and>
        dict_get (build_document (example_env no_web) alien_entry
                    (review_of_soup (example_env no_web) described_page)) ''id'' =
          Some (PStr (''rogerebert_'' @
                      take 12 (md5_hexdigest (example_env no_web) (t @ ''_0_rogerebert'')))))"
proof -
  have y: "movie_year (review_of_soup (example_env no_web) described_page) = None"
    by (simp add: extract_defs example_defs described_page_def Let_def)
  have l: "le_year alien_entry = None"
    by (simp add: alien_entry_def)
  from yearless_document [OF y l, of "example_env no_web"] y l show ?thesis by blast
qed

text \<open>
  C6 as stated fails: a detail page whose heading is empty provides the title \<open>""\<close>,
  and the document carries the listing title.
\<close>

theorem merge_title_counterexample:
  "movie_title (review_of_soup (example_env no_web) empty_heading_page) = Some [] \<and>
   le_title alien_entry = ''Alien'' \<and>
   dict_get (build_document (example_env no_web) alien_entry
               (review_of_soup (example_env no_web) empty_heading_page)) ''title'' =
     Some (PStr ''Alien'')"
proof -
  have t: "movie_title (review_of_soup (example_env no_web) empty_heading_page) = Some []"
    by (simp add: extract_defs example_defs empty_heading_page_def Let_def)
  show ?thesis
    by (simp add: t build_document_title alien_entry_def)
qed

text \<open>
  C6, amended. The document carries the detail-page title when that is present and not
  empty, and the detail-page year when that is present and not zero; when the detail-page
  value is absent (or empty, or zero) the document falls back to the listing value (for
  the year, to 0 when the listing has none either).
\<close>

theorem merge_title_year:
  "(\<forall>c cs. movie_title details = Some (c # cs) \<longrightarrow>
      dict_get (build_document E entry details) ''title'' = Some (PStr (c # cs))) \<and>
   (movie_title details = None \<or> movie_title details = Some [] \<longrightarrow>
      dict_get (build_document E entry details) ''title'' = Some (PStr (le_title entry))) \<and>
   (\<forall>y. movie_year details = Some y \<and> y \<noteq> 0 \<longrightarrow>
      dict_get (build_document E entry details) ''year'' = Some (PInt y)) \<and>
   (movie_year details = None \<or> movie_year details = Some 0 \<longrightarrow>
      dict_get (build_document E entry details) ''year'' =
        Some (PInt (case le_year entry of Some y \<Rightarrow> y | None \<Rightarrow> 0)))"
  by (auto simp: build_document_title build_document_year or_int_opt_def)

theorem merge_title_year_witness:
  "movie_title (review_of_soup (example_env no_web) rated_page) = Some ''Alien (1979)'' \<and>
   dict_get (build_document (example_env no_web) alien_entry
               (review_of_soup (example_env no_web) rated_page)) ''title'' =
     Some (PStr ''Alien (1979)'') \<and>
   movie_year (review_of_soup (example_env no_web) rated_page) = Some 1979 \<and>
   dict_get (build_document (example_env no_web) alien_entry
               (review_of_soup (example_env no_web) rated_page)) ''year'' = Some (PInt 1979) \<and>
   movie_title (review_of_soup (example_env no_web) described_page) = None \<and>
   dict_get (build_document (example_env no_web) alien_entry
               (review_of_soup (example_env no_web) described_page)) ''title'' =
     Some (PStr (le_title alien_entry)) \<and>
   movie_year (review_of_soup (example_env no_web) described_page) = None \<and>
   dict_get (build_document (example_env no_web) alien_entry
               (review_of_soup (example_env no_web) described_page)) ''year'' =
     Some (PInt (case le_year alien_entry of Some y \<Rightarrow> y | None \<Rightarrow> 0))"
proof -
  have t: "movie_title (review_of_soup (example_env no_web) rated_page) = Some ''Alien (1979)''"
    by (simp add: extract_defs example_defs rated_page_def Let_def)
  have y: "movie_year (review_of_soup (example_env no_web) rated_page) = Some 1979"
    by (simp add: extract_defs example_defs rated_page_def Let_def is_digit_def
        int_of_digits_def digit_val_def)
  have t': "movie_title (review_of_soup (example_env no_web) described_page) = None"
    by (simp add: extract_defs example_defs described_page_def Let_def)
  have y': "movie_year (review_of_soup (example_env no_web) described_page) = None"
    by (simp add: extract_defs example_defs described_page_def Let_def)
  from merge_title_year [of "review_of_soup (example_env no_web) rated_page"
      "example_env no_web" alien_entry]
    merge_title_year [of "review_of_soup (example_env no_web) described_page"
      "example_env no_web" alien_entry]
    t y t' y'
  show ?thesis by simp
qed

section \<open>The review body\<close>

lemma extract_review_body_eq:
  "extract_review_body soup =
     (case first_container soup of None \<Rightarrow> [] | Some body \<Rightarrow> paragraphs_text body)"
  by (simp add: extract_review_body_def first_container_def content_containers_def
      paragraphs_text_def or_else_def split: option.splits)

lemma review_text_eq:
  "review_text (review_of_soup E soup) =
     or_nonempty (extract_review_body soup) (extract_summary soup)"
  by (simp add: review_of_soup_def Let_def)

text \<open>
  C8 as stated fails: on a page without a content container the review text is not
  empty when the page has a description.
\<close>

theorem review_text_counterexample:
  "first_container described_page = None \<and>
   review_text (review_of_soup (example_env no_web) described_page) = ''A fine film.''"
  by (simp add: first_container_def content_containers_def extract_defs example_defs
      described_page_def Let_def)

text \<open>
  C8, amended. The review text is the single-space-joined concatenation, in document
  order, of the non-empty paragraph texts of the first matching content container when
  that text is not empty; when no container matches, or the container's text is empty,
  it is the page summary (the deck element's text, else the description meta tag, else
  the empty string).
\<close>

theorem review_text_of_page:
  "(first_container soup = None \<longrightarrow>
      review_text (review_of_soup E soup) = extract_summary soup) \<and>
   (\<forall>body. first_container soup = Some body \<longrightarrow>
      review_text (review_of_soup E soup) =
        (if paragraphs_text body \<noteq> [] then paragraphs_text body else extract_summary soup))"
  by (simp add: review_text_eq extract_review_body_eq or_nonempty_def)

theorem review_text_of_page_witness:
  "first_container described_page = None \<and>
   review_text (review_of_soup (example_env no_web) described_page) =
     extract_summary described_page \<and>
   first_container body_page =
     Some (page [(''p'', [leaf [] [''In space ''], leaf [] ['' ''],
                          leaf [] [''no one '', '' can hear.'']])]) \<and>
   paragraphs_text (page [(''p'', [leaf [] [''In space ''], leaf [] ['' ''],
                          leaf [] [''no one '', '' can hear.'']])]) =
     ''In space no one can hear.'' \<and>
   review_text (review_of_soup (example_env no_web) body_page) = ''In space no one can hear.''"
proof -
  have n: "first_container described_page = None"
    by (simp add: first_container_def content_containers_def example_defs described_page_def
        select_one_def)
  have b: "first_container body_page =
     Some (page [(''p'', [leaf [] [''In space ''], leaf [] ['' ''],
                          leaf [] [''no one '', '' can hear.'']])])"
    by (simp add: first_container_def content_containers_def example_defs body_page_def
        select_one_def)
  have p: "paragraphs_text (page [(''p'', [leaf [] [''In space ''], leaf [] ['' ''],
                          leaf [] [''no one '', '' can hear.'']])]) =
     ''In space no one can hear.''"
    by (simp add: paragraphs_text_def example_defs get_text_sep_strip_def get_text_strip_def
        stripped_strings_def py_strip_def is_space_def)
  from review_text_of_page [of described_page "example_env no_web"]
    review_text_of_page [of body_page "example_env no_web"] n b p
  show ?thesis by simp
qed

section \<open>The crawl session\<close>


lemma save_fields [simp]:
  "documents (save s) = documents s" "seen_review_urls (save s) = seen_review_urls s"
  "collected (save s) = collected s" "listing_queue (save s) = listing_queue s"
  "requests (save s) = requests s"
  by (simp_all add: save_def)

lemma session_inv_save: "session_inv docs0 seen0 (save s) = session_inv docs0 seen0 s"
  by (simp add: session_inv_def)

lemma session_inv_queue:
  "session_inv docs0 seen0 (s\<lparr> listing_queue := q \<rparr>) = session_inv docs0 seen0 s"
  by (simp add: session_inv_def)

lemma session_inv_request:
  assumes "session_inv docs0 seen0 s" and "\<And>u. r = DetailFetch u \<Longrightarrow> PStr u \<notin> seen0"
  shows "session_inv docs0 seen0 (s\<lparr> requests := requests s @ [r] \<rparr>)"
  using assms unfolding session_inv_def by auto

lemma session_inv_accept:
  assumes inv: "session_inv docs0 seen0 s"
    and new: "PStr (le_url entry) \<notin> seen_review_urls s"
  shows "session_inv docs0 seen0
           (s\<lparr> documents := documents s @ [build_document E entry details],
               seen_review_urls := insert (PStr (le_url entry)) (seen_review_urls s),
               collected := collected s + 1 \<rparr>)"
proof -
  from inv obtain new where n: "documents s = docs0 @ new" "distinct (map doc_url new)"
    "\<forall>d \<in> set new. \<exists>u. doc_url d = Some (PStr u) \<and> PStr u \<notin> seen0 \<and> PStr u \<in> seen_review_urls s"
    "seen0 \<subseteq> seen_review_urls s"
    "\<forall>u. DetailFetch u \<in> set (requests s) \<longrightarrow> PStr u \<notin> seen0"
    unfolding session_inv_def by blast
  let ?d = "build_document E entry details"
  have u: "doc_url ?d = Some (PStr (le_url entry))"
    by (simp add: doc_url_def build_document_url)
  have fresh: "doc_url ?d \<notin> set (map doc_url new)"
  proof
    assume "doc_url ?d \<in> set (map doc_url new)"
    then obtain d where "d \<in> set new" "doc_url d = Some (PStr (le_url entry))"
      using u by auto
    with n(3) new show False by auto
  qed
  have "documents s @ [?d] = docs0 @ (new @ [?d])" using n(1) by simp
  moreover have "distinct (map doc_url (new @ [?d]))" using n(2) fresh by simp
  moreover have "\<forall>d \<in> set (new @ [?d]). \<exists>u. doc_url d = Some (PStr u) \<and> PStr u \<notin> seen0 \<and>
      PStr u \<in> insert (PStr (le_url entry)) (seen_review_urls s)"
    using n(3,4) new u by auto
  ultimately show ?thesis
    unfolding session_inv_def using n(4,5) by (intro exI[of _ "new @ [?d]"]) auto
qed

lemma process_entries_session_inv:
  "session_inv docs0 seen0 s \<Longrightarrow> session_inv docs0 seen0 (process_entries E limit s entries)"
proof (induction entries arbitrary: s)
  case Nil
  then show ?case by simp
next
  case (Cons entry entries)
  show ?case
  proof (cases "limit \<le> int (collected s) \<or> PStr (le_url entry) \<in> seen_review_urls s")
    case True
    then show ?thesis using Cons by auto
  next
    case False
    then have new: "PStr (le_url entry) \<notin> seen_review_urls s" and lim: "\<not> limit \<le> int (collected s)"
      by auto
    from Cons.prems have sub: "seen0 \<subseteq> seen_review_urls s"
      unfolding session_inv_def by blast
    let ?s1 = "s\<lparr> requests := requests s @ [DetailFetch (le_url entry)] \<rparr>"
    have inv1: "session_inv docs0 seen0 ?s1"
      using Cons.prems new sub by (intro session_inv_request) auto
    show ?thesis
    proof (cases "fetch_review E (length (requests s)) (le_url entry)")
      case None
      then show ?thesis using new lim Cons.IH[OF inv1] by simp
    next
      case (Some details)
      let ?s2 = "?s1\<lparr> documents := documents ?s1 @ [build_document E entry details],
                         seen_review_urls := insert (PStr (le_url entry)) (seen_review_urls ?s1),
                         collected := collected ?s1 + 1 \<rparr>"
      have inv2: "session_inv docs0 seen0 ?s2"
        using session_inv_accept[OF inv1, of entry E details] new by simp
      have inv3: "session_inv docs0 seen0 (if collected ?s2 mod 10 = 0 then save ?s2 else ?s2)"
        using inv2 by (simp add: session_inv_save)
      have step: "process_entries E limit s (entry # entries) =
          process_entries E limit (if collected ?s2 mod 10 = 0 then save ?s2 else ?s2) entries"
        using new lim Some by (simp add: Let_def)
      show ?thesis
        unfolding step by (rule Cons.IH[OF inv3])
    qed
  qed
qed

lemma listing_iteration_session_inv:
  assumes "session_inv docs0 seen0 s"
  shows "session_inv docs0 seen0 (listing_iteration E limit s)"
proof (cases "listing_queue s")
  case Nil
  then show ?thesis using assms by (simp add: listing_iteration_def)
next
  case (Cons listing_url rest)
  let ?s1 = "s\<lparr> listing_queue := rest, requests := requests s @ [ListingFetch listing_url] \<rparr>"
  have "session_inv docs0 seen0 (s\<lparr> requests := requests s @ [ListingFetch listing_url] \<rparr>)"
    using assms by (intro session_inv_request) auto
  then have inv1: "session_inv docs0 seen0 ?s1"
    by (simp add: session_inv_def)
  show ?thesis
  proof (cases "http_get E (length (requests s)) listing_url")
    case None
    then show ?thesis using Cons inv1 by (simp add: listing_iteration_def)
  next
    case (Some soup)
    obtain entries discovered_next where p: "parse_listing E soup listing_url = (entries, discovered_next)"
      by (cases "parse_listing E soup listing_url")
    let ?s2 = "?s1\<lparr> listing_queue := enqueue (listing_queue ?s1) discovered_next \<rparr>"
    have inv2: "session_inv docs0 seen0 ?s2"
      using inv1 by (simp add: session_inv_def)
    show ?thesis
      using Cons Some p inv2 process_entries_session_inv[OF inv2, of E limit entries]
      by (simp add: listing_iteration_def Let_def)
  qed
qed

lemma crawl_steps_session_inv:
  "session_inv docs0 seen0 s \<Longrightarrow> session_inv docs0 seen0 (crawl_steps E limit n s)"
  by (induction n arbitrary: s) (auto intro: listing_iteration_session_inv)

lemma crawl_loop_steps: "crawl_loop E limit n s = Some s' \<Longrightarrow> s' = crawl_steps E limit n s"
  by (induction n arbitrary: s) (auto split: if_splits)


lemma load_seen_Inr:
  "load_seen S docs = Inr S' \<Longrightarrow> S' = S \<union> {v. \<exists>doc \<in> set docs. doc_url doc = Some v}"
proof (induction docs arbitrary: S)
  case Nil
  then show ?case by simp
next
  case (Cons doc docs)
  show ?case
  proof (cases "dict_get doc ''url''")
    case None
    then show ?thesis using Cons by (auto simp: doc_url_def)
  next
    case (Some v)
    then show ?thesis using Cons by (cases v) (auto simp: doc_url_def)
  qed
qed

lemma crawl_init_Inr:
  assumes "crawl_init ckpt start_page = Inr s0"
  shows "seen_review_urls s0 = {v. \<exists>doc \<in> set (documents s0). doc_url doc = Some v}"
    and "collected s0 = 0" and "requests s0 = []" and "written s0 = []"
    and "documents s0 = (case ckpt of Docs ds \<Rightarrow> ds | _ \<Rightarrow> [])"
proof -
  let ?docs = "(case ckpt of Docs ds \<Rightarrow> ds | _ \<Rightarrow> [])"
  from assms obtain seen where l: "load_seen {} ?docs = Inr seen"
    and s0: "s0 = \<lparr> documents = ?docs, seen_review_urls = seen, collected = 0,
                   listing_queue = initial_queue start_page, requests = [], written = [] \<rparr>"
    by (auto simp: crawl_init_def Let_def split: sum.splits)
  from load_seen_Inr[OF l] have "seen = {v. \<exists>doc \<in> set ?docs. doc_url doc = Some v}"
    by simp
  then show "seen_review_urls s0 = {v. \<exists>doc \<in> set (documents s0). doc_url doc = Some v}"
    by (simp add: s0)
  show "collected s0 = 0" "requests s0 = []" "written s0 = []" "documents s0 = ?docs"
    by (simp_all add: s0)
qed

lemma session_inv_init:
  "requests s = [] \<Longrightarrow> session_inv (documents s) (seen_review_urls s) s"
  by (simp add: session_inv_def)


lemma crawl_init_fresh: "crawl_init NoFile 1 = Inr fresh_state"
  by (simp add: crawl_init_def fresh_state_def initial_queue_def enqueue_def START_LISTING_URLS_def)

lemma crawl_init_one_seen: "crawl_init one_seen 1 = Inr one_seen_state"
  by (simp add: crawl_init_def one_seen_def one_seen_state_def initial_queue_def enqueue_def
      START_LISTING_URLS_def dict_get_def)

lemmas listing_defs = listing_iteration_def parse_listing_def extract_next_listing_urls_def
  add_href_def find_load_more_def py_set_list_def enqueue_def loop_cond_def
  select_one_def attr_of_def el_get_def or_else_def startswith_def BASE_URL_def

lemmas entry_defs = looks_like_review_def extract_summary_near_link_def or_nonempty_def
  or_int_opt_def clean_text_def get_text_def py_strip_def is_space_def is_digit_def
  fetch_review_def

text \<open>
  C1. In every crawl session, at every point of it: the seen set was seeded with the url
  of every loaded document; the documents are the loaded ones followed by the appended
  ones, no two appended documents have the same url, and no appended document's url was
  in the seeded seen set; no detail page of a seeded url was requested; and a candidate
  whose url is in the seen set leaves the session state as it is (no request, no
  document). A session that ends, ends in such a state.
\<close>

theorem no_duplicate_documents:
  assumes init: "crawl_init ckpt start_page = Inr s0"
    and s: "s = crawl_steps E limit n s0"
  shows "seen_review_urls s0 = {v. \<exists>doc \<in> set (documents s0). doc_url doc = Some v} \<and>
    (\<exists>new. documents s = documents s0 @ new \<and> distinct (map doc_url new) \<and>
       (\<forall>d \<in> set new. \<exists>u. doc_url d = Some (PStr u) \<and> PStr u \<notin> seen_review_urls s0)) \<and>
    (\<forall>u. DetailFetch u \<in> set (requests s) \<longrightarrow> PStr u \<notin> seen_review_urls s0) \<and>
    (\<forall>t entry. PStr (le_url entry) \<in> seen_review_urls t \<longrightarrow>
       process_entries E limit t [entry] = t) \<and>
    (\<forall>s'. crawl_loop E limit n s0 = Some s' \<longrightarrow> s' = s)"
proof -
  have "session_inv (documents s0) (seen_review_urls s0) s0"
    using crawl_init_Inr(3)[OF init] by (rule session_inv_init)
  then have "session_inv (documents s0) (seen_review_urls s0) s"
    unfolding s by (rule crawl_steps_session_inv)
  then obtain new where new: "documents s = documents s0 @ new" "distinct (map doc_url new)"
      "\<forall>d \<in> set new. \<exists>u. doc_url d = Some (PStr u) \<and> PStr u \<notin> seen_review_urls s0 \<and>
          PStr u \<in> seen_review_urls s"
    and req: "\<forall>u. DetailFetch u \<in> set (requests s) \<longrightarrow> PStr u \<notin> seen_review_urls s0"
    unfolding session_inv_def by blast
  have docs: "\<exists>new. documents s = documents s0 @ new \<and> distinct (map doc_url new) \<and>
       (\<forall>d \<in> set new. \<exists>u. doc_url d = Some (PStr u) \<and> PStr u \<notin> seen_review_urls s0)"
    using new by blast
  have skip: "\<forall>t entry. PStr (le_url entry) \<in> seen_review_urls t \<longrightarrow>
       process_entries E limit t [entry] = t"
    by simp
  have fin: "\<forall>s'. crawl_loop E limit n s0 = Some s' \<longrightarrow> s' = s"
    unfolding s by (blast dest: crawl_loop_steps)
  from crawl_init_Inr(1)[OF init] docs req skip fin show ?thesis
    by (intro conjI)
qed


theorem no_duplicate_documents_witness:
  "crawl_init one_seen 1 = Inr one_seen_state \<and>
   seen_review_urls one_seen_state =
     {v. \<exists>doc \<in> set (documents one_seen_state). doc_url doc = Some v} \<and>
   length (documents (crawl_steps (example_env review_site) 100 2 one_seen_state)) = 11 \<and>
   (\<exists>new. documents (crawl_steps (example_env review_site) 100 2 one_seen_state) =
            documents one_seen_state @ new \<and> distinct (map doc_url new) \<and>
      (\<forall>d \<in> set new. \<exists>u. doc_url d = Some (PStr u) \<and>
                             PStr u \<notin> seen_review_urls one_seen_state)) \<and>
   DetailFetch ''https://www.rogerebert.com/reviews/film-no-a'' \<notin>
     set (requests (crawl_steps (example_env review_site) 100 2 one_seen_state))"
proof -
  have run: "length (documents (crawl_steps (example_env review_site) 100 2 one_seen_state)) = 11"
    by (simp add: one_seen_state_def START_LISTING_URLS_def listing_defs entry_defs example_defs
        review_site_def review_links_def Let_def numeral_2_eq_2 save_def)
  have seen: "PStr ''https://www.rogerebert.com/reviews/film-no-a'' \<in>
      seen_review_urls one_seen_state"
    by (simp add: one_seen_state_def)
  from no_duplicate_documents [OF crawl_init_one_seen refl, of "example_env review_site" 100 2]
    crawl_init_one_seen run seen
  show ?thesis by blast
qed

section \<open>Checkpoints\<close>

















section \<open>The listing queue\<close>

text \<open>
  C2. On a site whose second listing page links back to the first, the crawl loop
  requests the first listing page a second time: a dequeued listing url is enqueued
  again when a later page names it.
\<close>

theorem listing_refetched:
  "crawl_init NoFile 1 = Inr fresh_state \<and>
   requests (crawl_steps (example_env cycle_web) 100 4 fresh_state) =
     [ListingFetch ''https://www.rogerebert.com/'',
      ListingFetch ''https://www.rogerebert.com/reviews'',
      ListingFetch ''https://www.rogerebert.com/reviews/page/2'',
      ListingFetch ''https://www.rogerebert.com/reviews'']"
  by (simp add: crawl_init_fresh fresh_state_def START_LISTING_URLS_def listing_defs example_defs
      cycle_web_def Let_def eval_nat_numeral)

section \<open>Rating normalization\<close>

lemma pow2_pos [simp]: "0 < pow2 e"
  by (simp add: pow2_def)

lemma pow2_int: "pow2 (int n) = 2 ^ n"
  by (simp add: pow2_def)

lemma bitlen_eq_Suc:
  assumes "(2::int) ^ k \<le> x" and "x < 2 ^ Suc k"
  shows "bitlen x = int k + 1"
proof -
  have "bitlen x \<le> int (Suc k) \<longleftrightarrow> int (Suc k) \<ge> 0 \<and> x < 2 ^ nat (int (Suc k))"
    by (rule bitlen_le_iff_power)
  then have le: "bitlen x \<le> int (Suc k)"
    using assms(2) by (simp only: nat_int of_nat_0_le_iff simp_thms)
  have "int (Suc k) \<le> bitlen x \<longleftrightarrow> int (Suc k) \<le> 0 \<or> 2 ^ (nat (int (Suc k)) - 1) \<le> x"
    by (rule bitlen_ge_iff_power)
  then have ge: "int (Suc k) \<le> bitlen x"
    using assms(1) by (simp only: nat_int diff_Suc_1 simp_thms)
  from le ge show ?thesis by simp
qed

lemma floor_log2_eq:
  assumes lo: "pow2 e \<le> a" and hi: "a < pow2 (e + 1)"
  shows "floor_log2 a = e"
proof (cases "0 \<le> e")
  case True
  define k where "k = nat e"
  have e: "e = int k" using True by (simp add: k_def)
  have lo': "(2::rat) ^ k \<le> a" using lo True by (simp add: pow2_def k_def)
  have hi': "a < (2::rat) ^ Suc k" using hi True by (simp add: pow2_def k_def nat_add_distrib)
  have "(1::rat) \<le> 2 ^ k" by simp
  with lo' have a1: "1 \<le> a" by linarith
  have "of_int (2 ^ k) \<le> a" using lo' by simp
  then have f1: "(2::int) ^ k \<le> \<lfloor>a\<rfloor>" by (simp only: le_floor_iff)
  have "a < of_int (2 ^ Suc k)" using hi' by simp
  then have f2: "\<lfloor>a\<rfloor> < (2::int) ^ Suc k" by (simp only: floor_less_iff)
  have "bitlen \<lfloor>a\<rfloor> = int k + 1"
    using f1 f2 by (rule bitlen_eq_Suc)
  then show ?thesis using a1 e by (simp add: floor_log2_def)
next
  case False
  define k where "k = nat (- e - 1)"
  have e: "e = - int k - 1" using False by (simp add: k_def)
  have pe: "pow2 e = 1 / 2 ^ Suc k"
    using False by (simp add: pow2_def e nat_add_distrib)
  have pe1: "pow2 (e + 1) = 1 / 2 ^ k"
    by (simp add: pow2_def e)
  have apos: "0 < a" using lo pow2_pos[of e] by linarith
  have "(1::rat) / 2 ^ k \<le> 1" by simp
  with hi pe1 have a1: "\<not> 1 \<le> a" by linarith
  define b where "b = 1 / a"
  have bpos: "0 < b" using apos by (simp add: b_def)
  have hi': "a < 1 / 2 ^ k" using hi by (simp only: pe1)
  have lo': "1 / 2 ^ Suc k \<le> a" using lo by (simp only: pe)
  have "a * 2 ^ k < 1" using hi' by (simp add: pos_less_divide_eq)
  then have blo: "(2::rat) ^ k < b"
    using apos by (simp add: b_def pos_less_divide_eq mult.commute)
  have "1 \<le> a * 2 ^ Suc k" using lo' by (simp only: pos_divide_le_eq zero_less_power zero_less_numeral)
  then have bhi: "b \<le> (2::rat) ^ Suc k"
    using apos by (simp add: b_def pos_divide_le_eq mult.commute)
  have "of_int (2 ^ k) \<le> b" using blo by simp
  then have f1: "(2::int) ^ k \<le> \<lfloor>b\<rfloor>" by (simp only: le_floor_iff)
  have fl: "floor_log2 a =
      (if b = pow2 (bitlen \<lfloor>b\<rfloor> - 1) then - (bitlen \<lfloor>b\<rfloor> - 1)
       else - (bitlen \<lfloor>b\<rfloor> - 1 + 1))"
    using a1 by (simp add: floor_log2_def b_def Let_def)
  show ?thesis
  proof (cases "b = 2 ^ Suc k")
    case True
    then have "b = of_int (2 ^ Suc k)" by simp
    then have "\<lfloor>b\<rfloor> = 2 ^ Suc k" by (simp only: floor_of_int)
    then have "bitlen \<lfloor>b\<rfloor> = int (Suc k) + 1"
      by (intro bitlen_eq_Suc) simp_all
    then have bl: "bitlen \<lfloor>b\<rfloor> - 1 = int (Suc k)" by simp
    have "floor_log2 a = (if b = 2 ^ Suc k then - int (Suc k) else - (int (Suc k) + 1))"
      by (simp only: fl bl pow2_int)
    then show ?thesis using True by (simp add: e)
  next
    case False
    with bhi have "b < of_int (2 ^ Suc k)" by simp
    then have f2: "\<lfloor>b\<rfloor> < (2::int) ^ Suc k" by (simp only: floor_less_iff)
    have bl: "bitlen \<lfloor>b\<rfloor> = int k + 1"
      using f1 f2 by (rule bitlen_eq_Suc)
    then have bl': "bitlen \<lfloor>b\<rfloor> - 1 = int k" by simp
    have ne: "b \<noteq> 2 ^ k" using blo by simp
    have "floor_log2 a = (if b = 2 ^ k then - int k else - (int k + 1))"
      by (simp only: fl bl' pow2_int)
    then show ?thesis using ne by (simp add: e)
  qed
qed

lemma binary64_eval:
  assumes "0 < x" and "pow2 e \<le> x" and "x < pow2 (e + 1)"
  shows "binary64 x =
     (let u = pow2 (max e (- 1022) - 52); y = of_int (round_half_even (x / u)) * u
      in if 2 ^ 1024 \<le> y then PInf else Fin y)"
  using assms by (simp add: binary64_def floor_log2_eq Let_def)

lemma floor_rat_numeral:
  "\<lfloor>numeral a / numeral b :: rat\<rfloor> = numeral a div numeral b"
  by (metis floor_divide_of_int_eq of_int_numeral)

lemmas float_eval = pow2_def round_half_even_def Let_def floor_rat_numeral


lemma float_mul_Fin: "float_mul (Fin a) (Fin b) = binary64 (a * b)"
  by (simp add: float_mul_def)

lemma float_quot_Fin: "float_quot (Fin a) (Fin b) = binary64 (a / b)"
  by (simp add: float_quot_def)

lemma normalize_rating_Fin:
  "b \<noteq> 0 \<Longrightarrow>
   normalize_rating (Fin a) (Fin b) = py_round1 (float_mul (binary64 (a / b)) (Fin 10))"
  by (simp add: normalize_rating_def float_quot_Fin)

text \<open>
  C4 as stated fails in float arithmetic: for the rating 1.5 on the scale 4.0 and the
  factor 0.7, the products \<open>1.5 * 0.7\<close> and \<open>4.0 * 0.7\<close> are rounded, their quotient
  falls just below 0.375, and the normalized rating is 3.7 instead of 3.8.
\<close>

theorem scale_invariance_counterexample:
  "normalize_rating (float_mul (Fin (3 / 2)) (binary64 (7 / 10)))
     (float_mul (Fin 4) (binary64 (7 / 10))) = binary64 (37 / 10) \<and>
   normalize_rating (Fin (3 / 2)) (Fin 4) = binary64 (19 / 5) \<and>
   binary64 (37 / 10) \<noteq> binary64 (19 / 5)"
proof -
  have k: "binary64 (7 / 10) = Fin (3152519739159347 / 4503599627370496)"
    by (subst binary64_eval[where e = "-1"]) (simp_all add: float_eval)
  have rk: "float_mul (Fin (3 / 2)) (Fin (3152519739159347 / 4503599627370496)) =
      Fin (1182194902184755 / 1125899906842624)"
    unfolding float_mul_Fin
    by (subst binary64_eval[where e = 0]) (simp_all add: float_eval)
  have sk: "float_mul (Fin 4) (Fin (3152519739159347 / 4503599627370496)) =
      Fin (3152519739159347 / 1125899906842624)"
    unfolding float_mul_Fin
    by (subst binary64_eval[where e = 1]) (simp_all add: float_eval)
  have q: "binary64 ((1182194902184755 / 1125899906842624) /
                     (3152519739159347 / 1125899906842624)) =
      Fin (6755399441055743 / 18014398509481984)"
    by (subst binary64_eval[where e = "-2"]) (simp_all add: float_eval)
  have m: "float_mul (Fin (6755399441055743 / 18014398509481984)) (Fin 10) =
      Fin (8444249301319679 / 2251799813685248)"
    unfolding float_mul_Fin
    by (subst binary64_eval[where e = 1]) (simp_all add: float_eval)
  have r37: "py_round1 (Fin (8444249301319679 / 2251799813685248)) = binary64 (37 / 10)"
    by (simp add: py_round1_def float_eval)
  have scaled: "normalize_rating (float_mul (Fin (3 / 2)) (binary64 (7 / 10)))
     (float_mul (Fin 4) (binary64 (7 / 10))) = binary64 (37 / 10)"
  proof -
    have ne: "(3152519739159347 / 1125899906842624 :: rat) \<noteq> 0" by simp
    show ?thesis
      unfolding k rk sk normalize_rating_Fin[OF ne] q m r37 by (rule refl)
  qed
  have q': "binary64 ((3 / 2) / 4) = Fin (3 / 8)"
    by (subst binary64_eval[where e = "-2"]) (simp_all add: float_eval)
  have m': "float_mul (Fin (3 / 8)) (Fin 10) = Fin (15 / 4)"
    unfolding float_mul_Fin
    by (subst binary64_eval[where e = 1]) (simp_all add: float_eval)
  have r38: "py_round1 (Fin (15 / 4)) = binary64 (19 / 5)"
    by (simp add: py_round1_def float_eval)
  have plain: "normalize_rating (Fin (3 / 2)) (Fin 4) = binary64 (19 / 5)"
  proof -
    have ne: "(4 :: rat) \<noteq> 0" by simp
    show ?thesis
      unfolding normalize_rating_Fin[OF ne] q' m' r38 by (rule refl)
  qed
  have b37: "binary64 (37 / 10) = Fin (4165829655317709 / 1125899906842624)"
    by (subst binary64_eval[where e = 1]) (simp_all add: float_eval)
  have b38: "binary64 (19 / 5) = Fin (4278419646001971 / 1125899906842624)"
    by (subst binary64_eval[where e = 1]) (simp_all add: float_eval)
  have "binary64 (37 / 10) \<noteq> binary64 (19 / 5)"
    unfolding b37 b38 by simp
  with scaled plain show ?thesis by simp
qed

text \<open>
  C4, amended. For finite \<open>r\<close>, positive \<open>s\<close> and positive \<open>k\<close>: whenever the float
  products \<open>r * k\<close> and \<open>s * k\<close> are exact (as they are for a power of two \<open>k\<close>
  without overflow or underflow), \<open>normalize_rating(r * k, s * k)\<close> equals
  \<open>normalize_rating(r, s)\<close>.
\<close>

theorem scale_invariance_exact:
  assumes "0 < s" and "0 < k"
    and "float_mul (Fin r) (Fin k) = Fin (r * k)"
    and "float_mul (Fin s) (Fin k) = Fin (s * k)"
  shows "normalize_rating (float_mul (Fin r) (Fin k)) (float_mul (Fin s) (Fin k)) =
         normalize_rating (Fin r) (Fin s)"
  using assms by (simp add: normalize_rating_def float_quot_Fin)

theorem scale_invariance_exact_witness:
  "(0::rat) < 4 \<and> (0::rat) < 2 \<and>
   float_mul (Fin (3 / 2)) (Fin 2) = Fin (3 / 2 * 2) \<and>
   float_mul (Fin 4) (Fin 2) = Fin (4 * 2) \<and>
   normalize_rating (float_mul (Fin (3 / 2)) (Fin 2)) (float_mul (Fin 4) (Fin 2)) =
     normalize_rating (Fin (3 / 2)) (Fin 4)"
proof -
  have a: "float_mul (Fin (3 / 2)) (Fin 2) = Fin (3 / 2 * 2)"
    unfolding float_mul_Fin
    by (subst binary64_eval[where e = 1]) (simp_all add: float_eval)
  have b: "float_mul (Fin 4) (Fin 2) = Fin (4 * 2)"
    unfolding float_mul_Fin
    by (subst binary64_eval[where e = 3]) (simp_all add: float_eval)
  have p: "(0::rat) < 4" "(0::rat) < 2" by simp_all
  from scale_invariance_exact [OF p a b] a b show ?thesis by simp
qed

section \<open>Pagination discovery\<close>

lemma py_set_list_single: "py_set_list E [x] = [x]"
proof -
  have "zs = [x]" if d: "distinct zs \<and> set zs = {x}" for zs :: "string list"
  proof (cases zs)
    case Nil
    with d show ?thesis by simp
  next
    case (Cons a list)
    with d have a: "a = x" and "set list \<subseteq> {x}" and "x \<notin> set list" by auto
    then have "list = []" by (cases list) auto
    with Cons a show ?thesis by simp
  qed
  note single = this
  show ?thesis
  proof (cases "distinct (set_iter E [x]) \<and> set (set_iter E [x]) = {x}")
    case True
    then have "py_set_list E [x] = set_iter E [x]"
      by (simp add: py_set_list_def Let_def)
    with single[OF True] show ?thesis by simp
  next
    case False
    have "py_set_list E [x] =
        (if distinct (set_iter E [x]) \<and> set (set_iter E [x]) = {x} then set_iter E [x]
         else [x])"
      by (simp add: py_set_list_def Let_def)
    then show ?thesis
      using False by (simp only: if_False)
  qed
qed

lemma set_py_set_list: "set (py_set_list E xs) = set xs"
  by (simp add: py_set_list_def Let_def)

lemma next_urls_start_with_base:
  "u \<in> set (extract_next_listing_urls E soup current_url) \<Longrightarrow> startswith u BASE_URL"
  by (simp add: extract_next_listing_urls_def Let_def)

text \<open>
  C7. A page whose \<open>next\<close> link is the absolute URL
  \<open>https://www.rogerebert.com.attacker.example/reviews/page/2\<close> (which \<open>urljoin\<close>
  returns as it is): pagination discovery returns that URL, because it starts with the
  text of the base URL, although its host is not the site's.
\<close>

theorem foreign_origin_kept:
  assumes "urljoin E current_url foreign_url = foreign_url"
  shows "extract_next_listing_urls E foreign_next_page current_url = [foreign_url] \<and>
    url_origin foreign_url = (''https'', ''www.rogerebert.com.attacker.example'') \<and>
    url_origin BASE_URL = (''https'', ''www.rogerebert.com'')"
proof -
  have urls: "extract_next_listing_urls E foreign_next_page current_url =
      filter (\<lambda>u. startswith u BASE_URL) (py_set_list E [foreign_url])"
    using assms
    by (simp add: extract_next_listing_urls_def add_href_def find_load_more_def select_one_def
        attr_of_def el_get_def or_else_def example_defs foreign_next_page_def foreign_url_def
        Let_def)
  have p: "startswith foreign_url BASE_URL"
    by (simp add: startswith_def foreign_url_def BASE_URL_def)
  have o1: "url_origin foreign_url = (''https'', ''www.rogerebert.com.attacker.example'')"
    by (simp add: url_origin_def url_host_def url_netloc_def url_scheme_def startswith_def
        foreign_url_def py_lower_def py_lower_char_def Let_def)
  have o2: "url_origin BASE_URL = (''https'', ''www.rogerebert.com'')"
    by (simp add: url_origin_def url_host_def url_netloc_def url_scheme_def startswith_def
        BASE_URL_def py_lower_def py_lower_char_def Let_def)
  from urls p o1 o2 show ?thesis
    by (simp add: py_set_list_single)
qed

theorem foreign_origin_kept_witness:
  "urljoin (example_env no_web) ''https://www.rogerebert.com/reviews'' foreign_url = foreign_url \<and>
   extract_next_listing_urls (example_env no_web) foreign_next_page
     ''https://www.rogerebert.com/reviews'' = [foreign_url] \<and>
   url_origin foreign_url = (''https'', ''www.rogerebert.com.attacker.example'') \<and>
   url_origin BASE_URL = (''https'', ''www.rogerebert.com'')"
proof -
  have j: "urljoin (example_env no_web) ''https://www.rogerebert.com/reviews'' foreign_url =
      foreign_url"
    by (simp add: example_env_def)
  from foreign_origin_kept [OF j] j show ?thesis by simp
qed


end
